theory Spec2Isabelle
  imports Complex_Main "HOL-Library.Char_ord" "HOL-Library.List_Lexorder"
begin

section \<open>Care Companion demo: the heuristic ("Demo Mode") generators of app.py\<close>

text \<open>
  Text is modelled as \<open>string\<close>, a list of 8-bit characters holding the UTF-8 encoding
  of the Python string. Case folding and the regular-expression character classes act on
  the ASCII range, where the model and Python agree; a character outside ASCII is left
  alone by \<open>lower\<close>/\<open>upper\<close> and belongs to none of the classes \<open>\d\<close>, \<open>\s\<close>, \<open>\w\<close>.
  Python differs there: \<open>\d\<close> and \<open>int\<close> accept every Unicode decimal digit, \<open>\s\<close> and
  \<open>str.strip\<close> every Unicode white space (the no-break space among them), \<open>\w\<close> and
  \<open>\b\<close> count letters such as e-acute as word characters, and \<open>str.lower\<close> maps the
  Kelvin sign U+212A to \<open>k\<close> and U+0130 to \<open>i\<close> followed by U+0307. On a text of ASCII
  characters the model computes what the source computes.
  The symbols of the source that lie outside ASCII (emoji, dashes, the degree sign) are
  written as their UTF-8 bytes.
\<close>

subsection \<open>Python string operations\<close>

definition nl :: char where
  "nl = CHR 0x0A"

definition apostrophe :: char where
  "apostrophe = CHR 0x27"

text \<open>\<open>ord(c)\<close>.\<close>

definition ord :: "char \<Rightarrow> nat" where
  "ord c = of_char c"

definition is_upper_ascii :: "char \<Rightarrow> bool" where
  "is_upper_ascii c = (65 \<le> ord c \<and> ord c \<le> 90)"

definition is_lower_ascii :: "char \<Rightarrow> bool" where
  "is_lower_ascii c = (97 \<le> ord c \<and> ord c \<le> 122)"

definition lower_char :: "char \<Rightarrow> char" where
  "lower_char c = (if is_upper_ascii c then char_of (ord c + 32) else c)"

definition upper_char :: "char \<Rightarrow> char" where
  "upper_char c = (if is_lower_ascii c then char_of (ord c - 32) else c)"

text \<open>\<open>str.lower()\<close> and \<open>str.upper()\<close>.\<close>

definition lower :: "string \<Rightarrow> string" where
  "lower s = map lower_char s"

definition upper :: "string \<Rightarrow> string" where
  "upper s = map upper_char s"

text \<open>\<open>s.startswith(p)\<close>.\<close>

fun startswith :: "string \<Rightarrow> string \<Rightarrow> bool" where
  "startswith s [] = True"
| "startswith [] (p # ps) = False"
| "startswith (c # cs) (p # ps) = (c = p \<and> startswith cs ps)"

text \<open>\<open>p in s\<close> for strings: \<open>p\<close> occurs in \<open>s\<close> as a contiguous substring.\<close>

fun py_in :: "string \<Rightarrow> string \<Rightarrow> bool" where
  "py_in p [] = (p = [])"
| "py_in p (c # cs) = (startswith (c # cs) p \<or> py_in p cs)"

text \<open>\<open>sep.join(xs)\<close>.\<close>

fun join :: "string \<Rightarrow> string list \<Rightarrow> string" where
  "join sep [] = []"
| "join sep [x] = x"
| "join sep (x # y # ys) = x @ sep @ join sep (y # ys)"

text \<open>The number of lines of a text: one more than its line breaks.\<close>

definition line_count :: "string \<Rightarrow> nat" where
  "line_count s = Suc (length (filter (\<lambda>c. c = nl) s))"

subsection \<open>Character classes of the \<open>re\<close> module (ASCII range)\<close>

definition is_digit :: "char \<Rightarrow> bool" where
  "is_digit c = (48 \<le> ord c \<and> ord c \<le> 57)"

text \<open>\<open>\s\<close> of a \<open>str\<close> pattern: tab, newline, vertical tab, form feed, carriage return,
  the four separators 0x1C..0x1F and the space.\<close>

definition is_space :: "char \<Rightarrow> bool" where
  "is_space c = ((9 \<le> ord c \<and> ord c \<le> 13) \<or> (28 \<le> ord c \<and> ord c \<le> 32))"

definition is_word :: "char \<Rightarrow> bool" where
  "is_word c = (is_digit c \<or> is_upper_ascii c \<or> is_lower_ascii c \<or> c = CHR ''_'')"

text \<open>\<open>\b\<close>: the characters on the two sides of the position differ in being word
  characters; the start and the end of the text count as a non-word side.\<close>

definition word_boundary :: "char option \<Rightarrow> string \<Rightarrow> bool" where
  "word_boundary prev rest =
     ((case prev of None \<Rightarrow> False | Some c \<Rightarrow> is_word c) \<noteq>
      (case rest of [] \<Rightarrow> False | c # _ \<Rightarrow> is_word c))"

subsection \<open>A backtracking matcher for the pieces of the two patterns\<close>

text \<open>
  The matcher is written in continuation-passing style, as the backtracking engine of
  \<open>re\<close> works: a piece consumes a prefix of the remaining text and hands the text it
  matched, the character before the new position and the rest to the continuation
  \<open>k\<close>; when the continuation fails the piece tries its next alternative. A greedy
  repetition tries the longest run first.

  \<open>rep_class p lo hi\<close> is \<open>[p]{lo,hi}\<close> (greedy); \<open>hi = None\<close> is no upper bound, so
  \<open>rep_class is_space 0 None\<close> is \<open>\s*\<close>.
\<close>

fun bound_pos :: "nat option \<Rightarrow> bool" where
  "bound_pos None = True"
| "bound_pos (Some n) = (0 < n)"

fun bound_dec :: "nat option \<Rightarrow> nat option" where
  "bound_dec None = None"
| "bound_dec (Some n) = Some (n - 1)"

fun rep_class :: "(char \<Rightarrow> bool) \<Rightarrow> nat \<Rightarrow> nat option \<Rightarrow>
    (string \<Rightarrow> char option \<Rightarrow> string \<Rightarrow> 'a option) \<Rightarrow>
    string \<Rightarrow> char option \<Rightarrow> string \<Rightarrow> 'a option" where
  "rep_class p lo hi k acc prev [] = (if lo = 0 then k acc prev [] else None)"
| "rep_class p lo hi k acc prev (c # cs) =
     (if bound_pos hi \<and> p c then
        (case rep_class p (lo - 1) (bound_dec hi) k (acc @ [c]) (Some c) cs of
           Some r \<Rightarrow> Some r
         | None \<Rightarrow> (if lo = 0 then k acc prev (c # cs) else None))
      else if lo = 0 then k acc prev (c # cs) else None)"

text \<open>A literal character.\<close>

fun lit :: "char \<Rightarrow> (char option \<Rightarrow> string \<Rightarrow> 'a option) \<Rightarrow>
    char option \<Rightarrow> string \<Rightarrow> 'a option" where
  "lit x k prev [] = None"
| "lit x k prev (c # cs) = (if c = x then k (Some c) cs else None)"

subsection \<open>\<open>_find_bp\<close>\<close>

datatype py_error = KeyError | ValueError | ModelError string

text \<open>\<open>int(s)\<close> on a string: the decimal value, \<open>ValueError\<close> on an empty string or a
  character that is no digit.\<close>

definition digit_val :: "char \<Rightarrow> int" where
  "digit_val c = int (ord c - 48)"

definition decimal_value :: "string \<Rightarrow> int" where
  "decimal_value s = foldl (\<lambda>n c. 10 * n + digit_val c) 0 s"

definition py_int :: "string \<Rightarrow> py_error + int" where
  "py_int s = (if s \<noteq> [] \<and> list_all is_digit s
               then Inr (decimal_value s)
               else Inl ValueError)"

text \<open>One attempt of \<open>\b(\d{2,3})\s*/\s*(\d{2,3})\b\<close> at a position: \<open>prev\<close> is the
  character before the position, \<open>s\<close> the text from it on. The result is the two groups
  and the two runs of white space.\<close>

definition match_bp :: "char option \<Rightarrow> string \<Rightarrow> (string \<times> string \<times> string \<times> string) option" where
  "match_bp prev s =
     (if word_boundary prev s then
        rep_class is_digit 2 (Some 3) (\<lambda>g1 p1 s1.
          rep_class is_space 0 None (\<lambda>w1 p2 s2.
            lit (CHR ''/'') (\<lambda>p3 s3.
              rep_class is_space 0 None (\<lambda>w2 p4 s4.
                rep_class is_digit 2 (Some 3) (\<lambda>g2 p5 s5.
                  if word_boundary p5 s5 then Some (g1, w1, w2, g2) else None)
                [] p4 s4)
              [] p3 s3)
            p2 s2)
          [] p1 s1)
        [] prev s
      else None)"

text \<open>\<open>re.search\<close>: the attempt is made at every position from the left, the end of the
  text included; the first position where it succeeds gives the match.\<close>

fun search_bp :: "char option \<Rightarrow> string \<Rightarrow> (string \<times> string \<times> string \<times> string) option" where
  "search_bp prev [] = match_bp prev []"
| "search_bp prev (c # cs) =
     (case match_bp prev (c # cs) of
        Some r \<Rightarrow> Some r
      | None \<Rightarrow> search_bp (Some c) cs)"

text \<open>\<open>m.group(0)\<close>: the matched text.\<close>

fun bp_raw :: "string \<times> string \<times> string \<times> string \<Rightarrow> string" where
  "bp_raw (g1, w1, w2, g2) = g1 @ w1 @ ''/'' @ w2 @ g2"

definition find_bp :: "string \<Rightarrow> py_error + (int \<times> int \<times> string) option" where
  "find_bp text =
     (case search_bp None text of
        None \<Rightarrow> Inr None
      | Some (g1, w1, w2, g2) \<Rightarrow>
          (case py_int g1 of
             Inl e \<Rightarrow> Inl e
           | Inr sys \<Rightarrow>
               (case py_int g2 of
                  Inl e \<Rightarrow> Inl e
                | Inr dia \<Rightarrow> Inr (Some (sys, dia, bp_raw (g1, w1, w2, g2))))))"

subsection \<open>\<open>_find_temp\<close> and \<open>_contains_any\<close>\<close>

text \<open>The degree sign U+00B0 in UTF-8.\<close>

definition degree_sign :: string where
  "degree_sign = [CHR 0xC2, CHR 0xB0]"

text \<open>An optional literal text (greedy \<open>?\<close>): first with it, then without.\<close>

definition opt_text :: "string \<Rightarrow> (string \<Rightarrow> char option \<Rightarrow> string \<Rightarrow> 'a option) \<Rightarrow>
    char option \<Rightarrow> string \<Rightarrow> 'a option" where
  "opt_text x k prev s =
     (if x \<noteq> [] \<and> startswith s x then
        (case k x (Some (last x)) (drop (length x) s) of
           Some r \<Rightarrow> Some r
         | None \<Rightarrow> k [] prev s)
      else k [] prev s)"

text \<open>One attempt of \<open>\b(\d{2,3}\.?\d?)\s*\<degree>?\s*f\b\<close> at a position; the result is
  \<open>m.group(0)\<close>.\<close>

definition match_temp :: "char option \<Rightarrow> string \<Rightarrow> string option" where
  "match_temp prev s =
     (if word_boundary prev s then
        rep_class is_digit 2 (Some 3) (\<lambda>g1 p1 s1.
          rep_class (\<lambda>c. c = CHR ''.'') 0 (Some 1) (\<lambda>dot p2 s2.
            rep_class is_digit 0 (Some 1) (\<lambda>g2 p3 s3.
              rep_class is_space 0 None (\<lambda>w1 p4 s4.
                opt_text degree_sign (\<lambda>deg p5 s5.
                  rep_class is_space 0 None (\<lambda>w2 p6 s6.
                    lit (CHR ''f'') (\<lambda>p7 s7.
                      if word_boundary p7 s7
                      then Some (g1 @ dot @ g2 @ w1 @ deg @ w2 @ ''f'') else None)
                    p6 s6)
                  [] p5 s5)
                p4 s4)
              [] p3 s3)
            [] p2 s2)
          [] p1 s1)
        [] prev s
      else None)"

fun search_temp :: "char option \<Rightarrow> string \<Rightarrow> string option" where
  "search_temp prev [] = match_temp prev []"
| "search_temp prev (c # cs) =
     (case match_temp prev (c # cs) of
        Some r \<Rightarrow> Some r
      | None \<Rightarrow> search_temp (Some c) cs)"

definition find_temp :: "string \<Rightarrow> string option" where
  "find_temp text = search_temp None (lower text)"

definition contains_any :: "string \<Rightarrow> string list \<Rightarrow> string list" where
  "contains_any text phrases = (let t = lower text in filter (\<lambda>p. py_in p t) phrases)"

subsection \<open>Symbols outside ASCII used by the report texts (UTF-8)\<close>

definition em_dash :: string where
  "em_dash = [CHR 0xE2, CHR 0x80, CHR 0x94]"

definition en_dash :: string where
  "en_dash = [CHR 0xE2, CHR 0x80, CHR 0x93]"

definition rsquo :: string where
  "rsquo = [CHR 0xE2, CHR 0x80, CHR 0x99]"

definition emoji_traffic_light :: string where
  "emoji_traffic_light = [CHR 0xF0, CHR 0x9F, CHR 0x9A, CHR 0xA6]"

definition emoji_check_mark :: string where
  "emoji_check_mark = [CHR 0xE2, CHR 0x9C, CHR 0x85]"

definition emoji_stethoscope :: string where
  "emoji_stethoscope = [CHR 0xF0, CHR 0x9F, CHR 0xA9, CHR 0xBA]"

definition emoji_people :: string where
  "emoji_people = [CHR 0xF0, CHR 0x9F, CHR 0x91, CHR 0xA5]"

definition emoji_lotus :: string where
  "emoji_lotus = [CHR 0xF0, CHR 0x9F, CHR 0xA7, CHR 0x98]"

subsection \<open>\<open>demo_risk_radar\<close>\<close>

text \<open>A finding is the tuple \<open>(title, evidence, level)\<close> the source appends to \<open>risks\<close>.\<close>

type_synonym finding = "string \<times> string \<times> string"

definition level_of :: "finding \<Rightarrow> string" where
  "level_of r = snd (snd r)"

text \<open>The six rules of lines 87--106, in the order of the source: the rule on the
  blood-pressure reading (lines 87--91), then the five keyword rules on the lower-cased
  note (lines 93--106).\<close>

definition bp_finding :: "(int \<times> int \<times> string) option \<Rightarrow> finding list" where
  "bp_finding bp =
     (case bp of
        None \<Rightarrow> []
      | Some (sys, dia, raw) \<Rightarrow>
          if sys \<le> 90 \<or> dia \<le> 60
          then [(''Low blood pressure reading'',
                 ''Evidence: '' @ [apostrophe] @ raw @ [apostrophe], ''monitor_closely'')]
          else [])"

definition keyword_findings :: "string \<Rightarrow> finding list" where
  "keyword_findings t =
     (if py_in ''dizzy'' t \<or> py_in ''dizziness'' t \<or> py_in ''lightheaded'' t
      then [(''Dizziness on standing'',
             ''Evidence: '' @ [apostrophe] @ ''dizzy / standing'' @ [apostrophe] @ '' mentioned'',
             ''monitor_closely'')]
      else []) @
     (if py_in ''short of breath'' t \<or> py_in ''difficulty breathing'' t
      then [(''Breathing difficulty'',
             ''Evidence: '' @ [apostrophe] @ ''short of breath'' @ [apostrophe] @ '' mentioned'',
             ''consider_urgent'')]
      else []) @
     (if py_in ''chest pain'' t \<or> py_in ''fainted'' t \<or> py_in ''passed out'' t
      then [(''Potential emergency symptom'',
             ''Evidence: chest pain/fainting mentioned'', ''consider_urgent'')]
      else []) @
     (if py_in ''fell'' t \<or> py_in ''trip'' t \<or> py_in ''walker'' t
      then [(''Fall risk'', ''Evidence: fall/trip/walker mentioned'', ''monitor_closely'')]
      else []) @
     (if py_in ''very little water'' t \<or> py_in ''drank less'' t \<or> py_in ''dehydr'' t
      then [(''Low hydration risk'', ''Evidence: low water intake mentioned'', ''monitor'')]
      else [])"

definition risk_findings :: "string \<Rightarrow> py_error + finding list" where
  "risk_findings note_text =
     (let t = lower note_text in
      case find_bp note_text of
        Inl e \<Rightarrow> Inl e
      | Inr bp \<Rightarrow> Inr (bp_finding bp @ keyword_findings t))"

text \<open>Lines 108--113.\<close>

definition urgency_of :: "finding list \<Rightarrow> string" where
  "urgency_of risks =
     (if risks = [] then ''low''
      else
        (let urgency = (if list_ex (\<lambda>r. level_of r = ''monitor_closely'') risks
                        then ''moderate'' else ''low'')
         in if list_ex (\<lambda>r. level_of r = ''consider_urgent'') risks then ''high'' else urgency))"

text \<open>The dictionary of line 122; a lookup of a missing key raises \<open>KeyError\<close>.\<close>

definition tag_table :: "(string \<times> string) list" where
  "tag_table = [(''monitor'', ''Monitor''), (''monitor_closely'', ''Monitor closely''),
                (''consider_urgent'', ''Consider urgent care'')]"

definition tag_of :: "string \<Rightarrow> py_error + string" where
  "tag_of level = (case map_of tag_table level of None \<Rightarrow> Inl KeyError | Some tag \<Rightarrow> Inr tag)"

definition signal_line :: "string \<Rightarrow> string \<Rightarrow> string \<Rightarrow> string" where
  "signal_line title tag ev =
     ''- **'' @ title @ ''** '' @ em_dash @ '' *'' @ tag @ ''*  '' @ [nl] @ ''  '' @ ev"

text \<open>The loop of lines 121--123.\<close>

fun signal_lines :: "finding list \<Rightarrow> py_error + string list" where
  "signal_lines [] = Inr []"
| "signal_lines ((title, ev, level) # rs) =
     (case tag_of level of
        Inl e \<Rightarrow> Inl e
      | Inr tag \<Rightarrow>
          (case signal_lines rs of
             Inl e \<Rightarrow> Inl e
           | Inr ls \<Rightarrow> Inr (signal_line title tag ev # ls)))"

definition urgency_line :: "string \<Rightarrow> string" where
  "urgency_line urgency = ''**Urgency level:** **'' @ upper urgency @ ''**''"

definition next_steps_lines :: "string \<Rightarrow> string list" where
  "next_steps_lines urgency =
     (if urgency = ''high''
      then [''- Consider urgent medical care / call clinician, especially if symptoms worsen.'']
      else [''- Monitor symptoms and repeat key measurements if available (e.g., BP).'',
            ''- Encourage hydration/food if appropriate and safe for the person.''])"

definition demo_risk_radar :: "string \<Rightarrow> py_error + string" where
  "demo_risk_radar note_text =
     (case risk_findings note_text of
        Inl e \<Rightarrow> Inl e
      | Inr risks \<Rightarrow>
          (let urgency = urgency_of risks in
           case (if risks \<noteq> []
                 then (case signal_lines risks of
                         Inl e \<Rightarrow> Inl e
                       | Inr ls \<Rightarrow> Inr (''### Signals detected (non-diagnostic)'' # ls))
                 else Inr [''- No clear risk signals detected from the note.'']) of
             Inl e \<Rightarrow> Inl e
           | Inr body \<Rightarrow>
               Inr (join [nl]
                 ([''## '' @ emoji_traffic_light @ '' Risk Radar (Demo Mode)'',
                   urgency_line urgency,
                   []] @
                  body @
                  [[], ''### What to do next (general)''] @
                  next_steps_lines urgency))))"

subsection \<open>\<open>demo_action_planner\<close>\<close>

text \<open>\<open>xs or [d]\<close>: an empty list is false.\<close>

definition or_default :: "string list \<Rightarrow> string list \<Rightarrow> string list" where
  "or_default xs d = (if xs \<noteq> [] then xs else d)"

definition bullets :: "string list \<Rightarrow> string list" where
  "bullets xs = map (\<lambda>a. ''- '' @ a) xs"

definition demo_action_planner :: "string \<Rightarrow> py_error + string" where
  "demo_action_planner note_text =
     (let t = lower note_text in
      case find_bp note_text of
        Inl e \<Rightarrow> Inl e
      | Inr bp \<Rightarrow>
          (let dizzy = (py_in ''dizzy'' t \<or> py_in ''lightheaded'' t);
               missed = py_in ''missed'' t;
               water = (py_in ''very little water'' t \<or> py_in ''drank less'' t);
               meal = (py_in ''skipped breakfast'' t \<or> py_in ''ate only'' t);
               actions_now =
                 (if dizzy then [''Help them stand slowly; ensure a safe path to prevent falls.''] else []) @
                 (if bp \<noteq> None then [''Recheck blood pressure later if you have a monitor.''] else []) @
                 (if water then [''Offer fluids in small amounts (if appropriate), and note intake.''] else []) @
                 (if meal then [''Offer a small, easy-to-eat meal/snack if appropriate.''] else []);
               monitor =
                 (if dizzy then [''Track when dizziness happens (standing, after meds, after meals).''] else []) @
                 (if bp \<noteq> None then [''Log BP with time and symptoms nearby.''] else []) @
                 (if water then [''Urine frequency/color (if comfortable) as a hydration clue.''] else []) @
                 (if meal then [''Food intake today (rough estimate).''] else []);
               confirm =
                 (if missed then [''Confirm which medication(s) were missed and when (write it down).''] else []);
               schedule =
                 [''Prepare a short update to share with family/other caregivers.'',
                  ''If symptoms persist/worsen, contact clinician for guidance.'']
           in Inr (join [nl]
                ([''## '' @ emoji_check_mark @ '' Action Planner (Demo Mode)'',
                  ''### Do now''] @
                 bullets (or_default actions_now [''Ensure comfort and safety; address immediate needs.'']) @
                 [[], ''### Monitor''] @
                 bullets (or_default monitor [''Track symptoms + timing through the day.'']) @
                 [[], ''### Confirm''] @
                 bullets (or_default confirm [''Confirm meds taken/missed and any measurements taken.'']) @
                 [[], ''### Schedule / delegate''] @
                 bullets schedule))))"

subsection \<open>\<open>demo_doctor_brief\<close>\<close>

definition doctor_summary :: "(int \<times> int \<times> string) option \<Rightarrow> string \<Rightarrow> string" where
  "doctor_summary bp note_text =
     (let bp_line = (case bp of Some (sys, dia, raw) \<Rightarrow> ''BP: '' @ raw @ '' (reported)''
                              | None \<Rightarrow> ''BP: not provided'');
          dizzy = (if py_in ''dizzy'' (lower note_text)
                   then ''Dizziness: yes (reported)'' else ''Dizziness: not reported'');
          missed = (if py_in ''missed'' (lower note_text)
                    then ''Missed medication dose: yes (reported)''
                    else ''Missed medication dose: not reported'')
      in ''Caregiver reports increased fatigue today with reduced intake/activity. '' @
         bp_line @ ''. '' @ dizzy @ ''. '' @ missed @ ''. '' @
         ''Hydration appears reduced. Mood described as lower/withdrawn.'')"

definition pertinent_positives :: "(int \<times> int \<times> string) option \<Rightarrow> string \<Rightarrow> string list" where
  "pertinent_positives bp note_text =
     (case bp of Some (sys, dia, raw) \<Rightarrow> [''- Low BP reading reported: '' @ raw] | None \<Rightarrow> []) @
     (if py_in ''dizzy'' (lower note_text) then [''- Dizziness when standing reported''] else []) @
     (if py_in ''missed'' (lower note_text) then [''- Missed a medication dose reported''] else []) @
     (if py_in ''very little water'' (lower note_text) \<or> py_in ''drank less'' (lower note_text)
      then [''- Reduced hydration reported''] else [])"

definition doctor_brief_lines :: "(int \<times> int \<times> string) option \<Rightarrow> string \<Rightarrow> string list" where
  "doctor_brief_lines bp note_text =
     [''## '' @ emoji_stethoscope @ '' Doctor Brief (Demo Mode)'',
      ''### Summary (4'' @ en_dash @ ''6 sentences)'',
      doctor_summary bp note_text,
      [],
      ''### Pertinent positives''] @
     pertinent_positives bp note_text @
     [[],
      ''### Questions for clinician'',
      ''- Could symptoms relate to hydration, medication timing, or blood pressure variability?'',
      ''- What parameters should trigger urgent evaluation (e.g., BP thresholds, worsening dizziness)?'',
      ''- Any recommended monitoring cadence for BP/symptoms over the next few days?'',
      [],
      ''### What to track before visit'',
      ''- BP readings with timestamps (if available)'',
      ''- Episodes of dizziness (timing, triggers, duration)'',
      ''- Food/fluid intake estimate'',
      ''- Meds taken/missed with approximate times'']"

definition demo_doctor_brief :: "string \<Rightarrow> py_error + string" where
  "demo_doctor_brief note_text =
     (case find_bp note_text of
        Inl e \<Rightarrow> Inl e
      | Inr bp \<Rightarrow> Inr (join [nl] (doctor_brief_lines bp note_text)))"

subsection \<open>\<open>demo_care_circle_msg\<close>\<close>

text \<open>The list \<open>msg\<close> of lines 225--236, before the slice \<open>msg[:7]\<close>.\<close>

definition care_circle_entries :: "(int \<times> int \<times> string) option \<Rightarrow> string \<Rightarrow> string \<Rightarrow> string list" where
  "care_circle_entries bp note_text tone =
     [''Quick update:''] @
     (if py_in ''dizzy'' (lower note_text) then [''- Had dizziness when standing today.''] else []) @
     (case bp of Some (sys, dia, raw) \<Rightarrow> [''- BP reading reported: '' @ raw @ ''.''] | None \<Rightarrow> []) @
     (if py_in ''missed'' (lower note_text)
      then [''- Missed at least one medication dose (noted).''] else []) @
     [''- Next steps: encourage fluids/food if appropriate, recheck BP later, and monitor symptoms.''] @
     (if startswith (lower tone) ''urgent''
      then [''If symptoms worsen, we should contact clinician / consider urgent care.''] else [])"

text \<open>The message body, \<open>"\n".join(msg[:7])\<close>.\<close>

definition care_circle_body :: "(int \<times> int \<times> string) option \<Rightarrow> string \<Rightarrow> string \<Rightarrow> string" where
  "care_circle_body bp note_text tone = join [nl] (take 7 (care_circle_entries bp note_text tone))"

definition demo_care_circle_msg :: "string \<Rightarrow> string \<Rightarrow> string \<Rightarrow> py_error + string" where
  "demo_care_circle_msg note_text audience tone =
     (case find_bp note_text of
        Inl e \<Rightarrow> Inl e
      | Inr bp \<Rightarrow>
          Inr (join [nl]
            [''## '' @ emoji_people @ '' Care Circle Message (Demo Mode)'',
             ''**Audience:** '' @ audience @ '' | **Tone:** '' @ tone,
             [],
             care_circle_body bp note_text tone]))"

subsection \<open>\<open>demo_caregiver_wellbeing\<close>\<close>

definition strain_phrases :: "string list" where
  "strain_phrases = [''exhaust'', ''overwhelm'', ''can't'', ''tired'', ''stress'', ''burnout'',
                     ''cry'', ''anxious'']"

text \<open>\<open>burnout_phrases\<close> of line 242 and \<open>sorted(set(burnout_phrases))\<close> of line 247:
  the distinct phrases in ascending order, strings compared as Python compares them
  (lexicographically by character code).\<close>

definition burnout_phrases :: "string \<Rightarrow> string list" where
  "burnout_phrases note_text = contains_any (lower note_text) strain_phrases"

definition strain_cues :: "string \<Rightarrow> string list" where
  "strain_cues note_text = sort (remdups (burnout_phrases note_text))"

definition strain_line :: "string \<Rightarrow> string" where
  "strain_line note_text =
     (if burnout_phrases note_text \<noteq> []
      then ''- Possible strain cues: '' @ join '', '' (strain_cues note_text)
      else ''- No explicit caregiver strain language detected in the note.'')"

definition demo_caregiver_wellbeing :: "string \<Rightarrow> py_error + string" where
  "demo_caregiver_wellbeing note_text =
     Inr (join [nl]
       [''## '' @ emoji_lotus @ '' Caregiver Wellbeing (Demo Mode)'',
        ''### Signals (only if present)'',
        strain_line note_text,
        [],
        ''### 10-minute reset plan (practical)'',
        ''- Drink water + quick snack.'',
        ''- Send a 2-line status update to someone in the care circle.'',
        ''- Pick ONE task to do next; park the rest.'',
        [],
        ''### Delegate / share load'',
        ''- Ask someone to cover: a meal, a 30-minute visit, a pharmacy run, or a check-in call.'',
        ''- If nights are tough, rotate shifts (even 2'' @ en_dash @ ''3 hour blocks).'',
        [],
        ''### Boundary reminder'',
        ''- You don'' @ rsquo @ ''t have to do everything perfectly. You'' @ rsquo @
          ''re aiming for safety + consistency.''])"

subsection \<open>Dispatch: \<open>llm_available\<close> and \<open>call_llm_or_demo\<close>\<close>

text \<open>
  The settings the source reads from module-level variables and from the environment:
  the sidebar values, whether \<open>from openai import OpenAI\<close> succeeded
  (\<open>OpenAI is not None\<close>), and the environment variable \<open>OPENAI_API_KEY\<close>
  (\<open>None\<close> when unset).
\<close>

record config =
  output_lang :: string
  mode :: string
  model :: string
  temperature :: real
  openai_loaded :: bool
  openai_api_key :: "string option"

text \<open>\<open>os.getenv(name, default)\<close>.\<close>

definition getenv_default :: "string option \<Rightarrow> string \<Rightarrow> string" where
  "getenv_default v d = (case v of None \<Rightarrow> d | Some x \<Rightarrow> x)"

definition llm_available :: "config \<Rightarrow> bool" where
  "llm_available cfg =
     (if startswith (mode cfg) ''Force Demo'' then False
      else if \<not> openai_loaded cfg then False
      else getenv_default (openai_api_key cfg) [] \<noteq> [])"

definition dquote :: char where
  "dquote = CHR 0x22"

definition SYSTEM :: "config \<Rightarrow> string" where
  "SYSTEM cfg = join [nl]
     [''You are a careful caregiving assistant.'',
      ''Rules:'',
      ''- Do NOT diagnose or claim medical certainty.'',
      ''- Only use information explicitly present in the caregiver note/context.'',
      ''- If something isn't mentioned, do not invent it.'',
      ''- Be concrete and actionable.'',
      ''- If urgent risk is strongly suggested, say: '' @ [dquote] @
        ''Consider urgent medical care'' @ [dquote] @ '' without diagnosing.'',
      ''- Write output in '' @ output_lang cfg @ ''.'',
      []]"

text \<open>
  The request sent to the provider, and the provider as a function of the request: the
  whole \<open>try\<close> block up to \<open>.strip()\<close> either yields the content of the first choice
  (\<open>Inr\<close>) or raises an exception \<open>e\<close>, of which the \<open>except\<close> branch reads only
  \<open>str(e)\<close> (\<open>Inl\<close>).
\<close>

record llm_request =
  req_api_key :: "string option"
  req_model :: string
  req_temperature :: real
  req_system :: string
  req_user :: string

type_synonym llm = "llm_request \<Rightarrow> string + string"

text \<open>\<open>str.strip()\<close>.\<close>

definition strip :: "string \<Rightarrow> string" where
  "strip s = rev (dropWhile is_space (rev (dropWhile is_space s)))"

text \<open>The test of line 303 on \<open>str(e).lower()\<close>.\<close>

definition quota_error :: "string \<Rightarrow> bool" where
  "quota_error err =
     (let msg = lower err in
      py_in ''insufficient_quota'' msg \<or> py_in ''exceeded your current quota'' msg \<or>
      py_in ''429'' msg)"

text \<open>A re-raised exception is \<open>ModelError\<close> with its text.\<close>

definition llm_request_of :: "config \<Rightarrow> string \<Rightarrow> llm_request" where
  "llm_request_of cfg prompt =
     \<lparr>req_api_key = openai_api_key cfg, req_model = model cfg,
      req_temperature = temperature cfg, req_system = SYSTEM cfg, req_user = prompt\<rparr>"

definition call_llm_or_demo ::
    "config \<Rightarrow> llm \<Rightarrow> string \<Rightarrow> ('args \<Rightarrow> py_error + string) \<Rightarrow> 'args \<Rightarrow> py_error + string" where
  "call_llm_or_demo cfg provider prompt demo_fn demo_args =
     (if \<not> llm_available cfg then demo_fn demo_args
      else
        (case provider (llm_request_of cfg prompt) of
           Inr content \<Rightarrow> Inr (strip content)
         | Inl err \<Rightarrow>
             if quota_error err then demo_fn demo_args else Inl (ModelError err)))"

subsection \<open>The five tabs: prompt and matching generator\<close>

datatype tool = RiskRadar | ActionPlanner | DoctorBrief | CareCircle | Wellbeing

text \<open>The texts the page holds when a button is pressed.\<close>

record page_inputs =
  inp_note :: string
  inp_context :: string
  inp_audience :: string
  inp_tone :: string
  inp_caregiver_note :: string

definition risk_radar_prompt :: "page_inputs \<Rightarrow> string" where
  "risk_radar_prompt inp = join [nl]
     [[],
      ''Create a Risk Radar from the caregiver note.'',
      [],
      ''Context:'',
      inp_context inp,
      [],
      ''Caregiver note:'',
      inp_note inp,
      [],
      ''Output format (use headings):'',
      ''1) Urgency level: LOW / MODERATE / HIGH (non-diagnostic)'',
      ''2) Signals detected (bullets). For each signal:'',
      ''   - Why it was flagged (include exact quote from note)'',
      ''   - Suggested action: monitor / monitor closely / consider urgent medical care'',
      ''3) What to monitor next (bullets)'',
      ''Rules: Do NOT diagnose. Do NOT invent details.'',
      []]"

definition action_plan_prompt :: "page_inputs \<Rightarrow> string" where
  "action_plan_prompt inp = join [nl]
     [[],
      ''Generate a prioritized caregiver Action Plan from the note.'',
      [],
      ''Context:'',
      inp_context inp,
      [],
      ''Caregiver note:'',
      inp_note inp,
      [],
      ''Output format (use headings):'',
      ''- Do NOW (3'' @ en_dash @ ''6 bullets)'',
      ''- Monitor (3'' @ en_dash @ ''6 bullets)'',
      ''- Confirm (missing info to clarify) (2'' @ en_dash @ ''6 bullets)'',
      ''- Schedule / delegate (2'' @ en_dash @ ''5 bullets)'',
      ''Rules: Do NOT diagnose. Use only note/context.'',
      []]"

definition doctor_brief_prompt :: "page_inputs \<Rightarrow> string" where
  "doctor_brief_prompt inp = join [nl]
     [[],
      ''Create a clinician-friendly brief based strictly on the note.'',
      [],
      ''Context:'',
      inp_context inp,
      [],
      ''Caregiver note:'',
      inp_note inp,
      [],
      ''Output format (use headings):'',
      ''1) 4'' @ en_dash @ ''6 sentence summary (no diagnosis)'',
      ''2) Pertinent positives (bullets)'',
      ''3) Medication adherence (bullets; only what is stated)'',
      ''4) Key questions for clinician (2'' @ en_dash @ ''6)'',
      ''5) What to track before visit (3'' @ en_dash @ ''8)'',
      ''Rules: Use only note/context. No invented negatives.'',
      []]"

definition care_circle_prompt :: "page_inputs \<Rightarrow> string" where
  "care_circle_prompt inp = join [nl]
     [[],
      ''Write a short message for '' @ inp_audience inp @ ''.'',
      ''Tone: '' @ inp_tone inp,
      [],
      ''Context:'',
      inp_context inp,
      [],
      ''Caregiver note:'',
      inp_note inp,
      [],
      ''Constraints:'',
      ''- 3'' @ en_dash @ ''7 short lines max'',
      ''- Include: 1) key update, 2) what help is needed, 3) next step'',
      ''- If urgent risk is strongly suggested by the note, recommend contacting clinician/urgent care (non-diagnostic).'',
      ''No diagnosis. Use only note/context.'',
      []]"

definition wellbeing_prompt :: "page_inputs \<Rightarrow> string" where
  "wellbeing_prompt inp = join [nl]
     [[],
      ''Assess caregiver wellbeing and suggest non-medical support steps.'',
      [],
      ''Context:'',
      inp_context inp,
      [],
      ''Caregiver note:'',
      inp_note inp,
      [],
      ''Caregiver's self-note:'',
      inp_caregiver_note inp,
      [],
      ''Output format:'',
      ''1) Burnout/strain signals (ONLY if present; include quote if you cite a signal)'',
      ''2) 10-minute reset plan (practical)'',
      ''3) Delegate/share-load ideas (concrete examples)'',
      ''4) Boundary reminder (1'' @ en_dash @ ''2 lines)'',
      ''Rules: Non-medical. No diagnosis. Use only provided text.'',
      []]"

text \<open>\<open>combined\<close> of line 440.\<close>

definition combined :: "page_inputs \<Rightarrow> string" where
  "combined inp = inp_note inp @ [nl, nl] @ ''Caregiver note: '' @ inp_caregiver_note inp"

text \<open>The heuristic generator each tab passes as \<open>demo_fn\<close>, applied to the arguments it
  passes as \<open>demo_args\<close> (lines 343, 369, 396, 425 and 461).\<close>

fun demo_of :: "tool \<Rightarrow> page_inputs \<Rightarrow> py_error + string" where
  "demo_of RiskRadar inp = demo_risk_radar (inp_note inp)"
| "demo_of ActionPlanner inp = demo_action_planner (inp_note inp)"
| "demo_of DoctorBrief inp = demo_doctor_brief (inp_note inp)"
| "demo_of CareCircle inp = demo_care_circle_msg (inp_note inp) (inp_audience inp) (inp_tone inp)"
| "demo_of Wellbeing inp = demo_caregiver_wellbeing (combined inp)"

text \<open>The prompt each tab builds.\<close>

fun prompt_of :: "tool \<Rightarrow> page_inputs \<Rightarrow> string" where
  "prompt_of RiskRadar inp = risk_radar_prompt inp"
| "prompt_of ActionPlanner inp = action_plan_prompt inp"
| "prompt_of DoctorBrief inp = doctor_brief_prompt inp"
| "prompt_of CareCircle inp = care_circle_prompt inp"
| "prompt_of Wellbeing inp = wellbeing_prompt inp"

text \<open>What pressing the button of a tab computes before \<open>st.markdown(out)\<close>.\<close>

fun run_tool :: "config \<Rightarrow> llm \<Rightarrow> tool \<Rightarrow> page_inputs \<Rightarrow> py_error + string" where
  "run_tool cfg provider RiskRadar inp =
     call_llm_or_demo cfg provider (risk_radar_prompt inp) demo_risk_radar (inp_note inp)"
| "run_tool cfg provider ActionPlanner inp =
     call_llm_or_demo cfg provider (action_plan_prompt inp) demo_action_planner (inp_note inp)"
| "run_tool cfg provider DoctorBrief inp =
     call_llm_or_demo cfg provider (doctor_brief_prompt inp) demo_doctor_brief (inp_note inp)"
| "run_tool cfg provider CareCircle inp =
     call_llm_or_demo cfg provider (care_circle_prompt inp)
       (\<lambda>(n, a, t). demo_care_circle_msg n a t) (inp_note inp, inp_audience inp, inp_tone inp)"
| "run_tool cfg provider Wellbeing inp =
     call_llm_or_demo cfg provider (wellbeing_prompt inp) demo_caregiver_wellbeing (combined inp)"

subsection \<open>Notions used to state the properties\<close>

text \<open>The character before the position reached after reading \<open>a\<close>, when \<open>prev\<close> was the
  character before \<open>a\<close>.\<close>

definition prev_of :: "char option \<Rightarrow> string \<Rightarrow> char option" where
  "prev_of prev a = (if a = [] then prev else Some (last a))"

fun in_bound :: "nat \<Rightarrow> nat option \<Rightarrow> bool" where
  "in_bound n None = True"
| "in_bound n (Some h) = (n \<le> h)"


text \<open>
  What it means for the pattern of \<open>_find_bp\<close>, \<open>\b(\d{2,3})\s*/\s*(\d{2,3})\b\<close>, to match
  at a position, said without the matcher: the matched text is two or three digits, white
  space, a slash, white space, two or three digits, and there is a word boundary on both
  sides. \<open>prev\<close> is the character before the match and \<open>post\<close> the text after it.
\<close>

definition digits23 :: "string \<Rightarrow> bool" where
  "digits23 g = (list_all is_digit g \<and> 2 \<le> length g \<and> length g \<le> 3)"

fun bp_pattern_at :: "char option \<Rightarrow> string \<times> string \<times> string \<times> string \<Rightarrow> string \<Rightarrow> bool" where
  "bp_pattern_at prev (g1, w1, w2, g2) post =
     (digits23 g1 \<and> list_all is_space w1 \<and> list_all is_space w2 \<and> digits23 g2 \<and>
      word_boundary prev (bp_raw (g1, w1, w2, g2) @ post) \<and>
      word_boundary (Some (last g2)) post)"




text \<open>The three levels the rules of \<open>demo_risk_radar\<close> use.\<close>

definition known_level :: "string \<Rightarrow> bool" where
  "known_level l = (l = ''monitor'' \<or> l = ''monitor_closely'' \<or> l = ''consider_urgent'')"

text \<open>Settings and page inputs used as examples.\<close>

definition example_config :: config where
  "example_config = \<lparr>output_lang = ''English'',
     mode = ''Auto (OpenAI if available, else Demo Mode)'', model = ''gpt-4o-mini'',
     temperature = 0.2, openai_loaded = True, openai_api_key = Some ''sk-test''\<rparr>"

definition example_inputs :: page_inputs where
  "example_inputs = \<lparr>inp_note = ''felt dizzy, BP 92/58'', inp_context = ''Older adult'',
     inp_audience = ''Family group chat'', inp_tone = ''Urgent (only if needed)'',
     inp_caregiver_note = ''I feel exhausted''\<rparr>"

definition forced_config :: config where
  "forced_config = \<lparr>output_lang = ''English'',
     mode = ''Force Demo Mode (no API)'', model = ''gpt-4o-mini'',
     temperature = 0.2, openai_loaded = True, openai_api_key = Some ''sk-test''\<rparr>"

text \<open>The entry appended when the tone begins with \<open>urgent\<close>.\<close>

definition urgent_contact_line :: string where
  "urgent_contact_line = ''If symptoms worsen, we should contact clinician / consider urgent care.''"

text \<open>A note whose blood-pressure reading is typed over three lines.\<close>

definition multiline_note :: string where
  "multiline_note = ''dizzy, missed, 92\<newline>/\<newline>58''"

definition multiline_raw :: string where
  "multiline_raw = ''92\<newline>/\<newline>58''"

section \<open>Properties\<close>

subsection \<open>The matcher finds exactly the matches of the pattern\<close>

lemma prev_of_Nil [simp]: "prev_of prev [] = prev"
  by (simp add: prev_of_def)

lemma prev_of_Cons [simp]: "prev_of prev (c # cs) = prev_of (Some c) cs"
  by (simp add: prev_of_def)

lemma prev_of_append [simp]: "prev_of prev (a @ b) = prev_of (prev_of prev a) b"
  by (simp add: prev_of_def)

lemma in_bound_0 [simp]: "in_bound 0 hi"
  by (cases hi) auto


lemma in_bound_Suc: "bound_pos hi \<Longrightarrow> in_bound n (bound_dec hi) \<Longrightarrow> in_bound (Suc n) hi"
  by (cases hi) auto

lemma rep_class_sound:
  "rep_class p lo hi k acc prev s = Some r \<Longrightarrow>
   \<exists>xs rest. s = xs @ rest \<and> list_all p xs \<and> lo \<le> length xs \<and> in_bound (length xs) hi \<and>
     k (acc @ xs) (prev_of prev xs) rest = Some r"
proof (induction s arbitrary: lo hi acc prev)
  case Nil
  then show ?case by (auto split: if_splits)
next
  case (Cons c cs)
  show ?case
  proof (cases "bound_pos hi \<and> p c")
    case True
    show ?thesis
    proof (cases "rep_class p (lo - 1) (bound_dec hi) k (acc @ [c]) (Some c) cs")
      case None
      with True Cons.prems have "lo = 0" "k acc prev (c # cs) = Some r"
        by (auto split: if_splits)
      then have "c # cs = [] @ (c # cs) \<and> list_all p [] \<and> lo \<le> length ([]::string) \<and>
          in_bound (length ([]::string)) hi \<and> k (acc @ []) (prev_of prev []) (c # cs) = Some r"
        by (cases hi) auto
      then show ?thesis by blast
    next
      case (Some r')
      with True Cons.prems have r: "r' = r" by simp
      with Some have S: "rep_class p (lo - 1) (bound_dec hi) k (acc @ [c]) (Some c) cs = Some r"
        by simp
      from Cons.IH[OF S] obtain xs rest where
        x: "cs = xs @ rest" "list_all p xs" "lo - 1 \<le> length xs" "in_bound (length xs) (bound_dec hi)"
           "k ((acc @ [c]) @ xs) (prev_of (Some c) xs) rest = Some r"
        by blast
      from x True have "c # cs = (c # xs) @ rest \<and> list_all p (c # xs) \<and> lo \<le> length (c # xs) \<and>
          in_bound (length (c # xs)) hi \<and> k (acc @ (c # xs)) (prev_of prev (c # xs)) rest = Some r"
        using r by (auto intro: in_bound_Suc)
      then show ?thesis by blast
    qed
  next
    case False
    with Cons.prems have "lo = 0" "k acc prev (c # cs) = Some r"
      by (auto split: if_splits)
    then have "c # cs = [] @ (c # cs) \<and> list_all p [] \<and> lo \<le> length ([]::string) \<and>
        in_bound (length ([]::string)) hi \<and> k (acc @ []) (prev_of prev []) (c # cs) = Some r"
      by (cases hi) auto
    then show ?thesis by blast
  qed
qed


lemma rep_class_sound0:
  "rep_class p lo hi k [] prev s = Some r \<Longrightarrow>
   \<exists>xs rest. s = xs @ rest \<and> list_all p xs \<and> lo \<le> length xs \<and> in_bound (length xs) hi \<and>
     k xs (prev_of prev xs) rest = Some r"
  using rep_class_sound[of p lo hi k "[]" prev s r] by simp


lemma lit_sound: "lit x k prev s = Some r \<Longrightarrow> \<exists>cs. s = x # cs \<and> k (Some x) cs = Some r"
  by (cases s) (auto split: if_splits)

lemma match_bp_sound:
  assumes "match_bp prev s = Some m"
  shows "\<exists>post. s = bp_raw m @ post \<and> bp_pattern_at prev m post"
proof -
  let ?k5 = "\<lambda>g1 w1 w2 g2 p5 s5. if word_boundary p5 s5 then Some (g1, w1, w2, g2) else None"
  let ?k4 = "\<lambda>g1 w1 w2 p4 s4. rep_class is_digit 2 (Some 3) (?k5 g1 w1 w2) [] p4 s4"
  let ?k3 = "\<lambda>g1 w1 p3 s3. rep_class is_space 0 None (?k4 g1 w1) [] p3 s3"
  let ?k2 = "\<lambda>g1 w1 p2 s2. lit (CHR ''/'') (?k3 g1 w1) p2 s2"
  let ?k1 = "\<lambda>g1 p1 s1. rep_class is_space 0 None (?k2 g1) [] p1 s1"
  from assms have wb: "word_boundary prev s"
    and m1: "rep_class is_digit 2 (Some 3) ?k1 [] prev s = Some m"
    by (auto simp: match_bp_def split: if_splits)
  from rep_class_sound0[OF m1] obtain g1 s1 where
    g1: "s = g1 @ s1" "list_all is_digit g1" "2 \<le> length g1" "length g1 \<le> 3"
    and m2: "?k1 g1 (prev_of prev g1) s1 = Some m"
    by auto
  from rep_class_sound0[OF m2] obtain w1 s2 where
    w1: "s1 = w1 @ s2" "list_all is_space w1"
    and m3: "?k2 g1 w1 (prev_of (prev_of prev g1) w1) s2 = Some m"
    by auto
  from lit_sound[OF m3] obtain s3 where
    s3: "s2 = CHR ''/'' # s3" and m4: "?k3 g1 w1 (Some (CHR ''/'')) s3 = Some m"
    by auto
  from rep_class_sound0[OF m4] obtain w2 s4 where
    w2: "s3 = w2 @ s4" "list_all is_space w2"
    and m5: "?k4 g1 w1 w2 (prev_of (Some (CHR ''/'')) w2) s4 = Some m"
    by auto
  from rep_class_sound0[OF m5] obtain g2 s5 where
    g2: "s4 = g2 @ s5" "list_all is_digit g2" "2 \<le> length g2" "length g2 \<le> 3"
    and m6: "?k5 g1 w1 w2 g2 (prev_of (prev_of (Some (CHR ''/'')) w2) g2) s5 = Some m"
    by auto
  from g2 have ne: "g2 \<noteq> []" by auto
  then have p5: "prev_of (prev_of (Some (CHR ''/'')) w2) g2 = Some (last g2)"
    by (simp add: prev_of_def)
  from m6 p5 have m: "m = (g1, w1, w2, g2)" and wb2: "word_boundary (Some (last g2)) s5"
    by (auto split: if_splits)
  have "s = bp_raw m @ s5" using g1 w1 s3 w2 g2 m by simp
  moreover have "bp_pattern_at prev m s5"
    using g1 w1 s3 w2 g2 m wb wb2 by (simp add: digits23_def)
  ultimately show ?thesis by blast
qed


lemma search_bp_sound:
  "search_bp prev s = Some m \<Longrightarrow>
   \<exists>a b. s = a @ b \<and> match_bp (prev_of prev a) b = Some m \<and>
     (\<forall>a' b'. s = a' @ b' \<and> length a' < length a \<longrightarrow> match_bp (prev_of prev a') b' = None)"
proof (induction s arbitrary: prev)
  case Nil
  then have "[] = [] @ ([]::string) \<and> match_bp (prev_of prev []) [] = Some m \<and>
     (\<forall>a' b'. [] = a' @ b' \<and> length a' < length ([]::string) \<longrightarrow> match_bp (prev_of prev a') b' = None)"
    by simp
  then show ?case by blast
next
  case (Cons c cs)
  show ?case
  proof (cases "match_bp prev (c # cs)")
    case (Some r)
    with Cons.prems have "c # cs = [] @ (c # cs) \<and> match_bp (prev_of prev []) (c # cs) = Some m \<and>
     (\<forall>a' b'. c # cs = a' @ b' \<and> length a' < length ([]::string) \<longrightarrow> match_bp (prev_of prev a') b' = None)"
      by simp
    then show ?thesis by blast
  next
    case None
    with Cons.prems have "search_bp (Some c) cs = Some m" by simp
    from Cons.IH[OF this] obtain a b where
      ab: "cs = a @ b" "match_bp (prev_of (Some c) a) b = Some m"
      "\<forall>a' b'. cs = a' @ b' \<and> length a' < length a \<longrightarrow> match_bp (prev_of (Some c) a') b' = None"
      by blast
    have "\<forall>a' b'. c # cs = a' @ b' \<and> length a' < length (c # a) \<longrightarrow>
        match_bp (prev_of prev a') b' = None"
    proof (intro allI impI)
      fix a' b' assume h: "c # cs = a' @ b' \<and> length a' < length (c # a)"
      show "match_bp (prev_of prev a') b' = None"
      proof (cases a')
        case Nil
        with h None show ?thesis by simp
      next
        case (Cons x xs)
        with h have "cs = xs @ b'" "length xs < length a" "x = c" by auto
        with ab(3) Cons show ?thesis by simp
      qed
    qed
    with ab have "c # cs = (c # a) @ b \<and> match_bp (prev_of prev (c # a)) b = Some m \<and>
      (\<forall>a' b'. c # cs = a' @ b' \<and> length a' < length (c # a) \<longrightarrow>
        match_bp (prev_of prev a') b' = None)"
      by simp
    then show ?thesis by blast
  qed
qed


lemma find_bp_total: "\<exists>bp. find_bp text = Inr bp"
proof (cases "search_bp None text")
  case None
  then show ?thesis by (simp add: find_bp_def)
next
  case (Some m)
  obtain g1 w1 w2 g2 where m: "m = (g1, w1, w2, g2)" by (cases m) auto
  from search_bp_sound[OF Some] obtain a b where "match_bp (prev_of None a) b = Some m" by blast
  from match_bp_sound[OF this] m have "digits23 g1" "digits23 g2" by auto
  then have "g1 \<noteq> []" "g2 \<noteq> []" "list_all is_digit g1" "list_all is_digit g2"
    by (auto simp: digits23_def)
  then show ?thesis using Some m by (simp add: find_bp_def py_int_def)
qed

subsection \<open>Risk Radar: urgency of a note with only \<open>monitor\<close> findings\<close>

lemma tag_of_monitor: "tag_of ''monitor'' = Inr ''Monitor''"
  by (simp add: tag_of_def tag_table_def)

lemma signal_lines_monitor:
  "\<forall>r\<in>set risks. level_of r = ''monitor'' \<Longrightarrow> \<exists>ls. signal_lines risks = Inr ls"
proof (induction risks)
  case Nil
  then show ?case by simp
next
  case (Cons r rs)
  obtain title ev level where r: "r = (title, ev, level)" by (cases r) auto
  with Cons.prems have "level = ''monitor''" by (simp add: level_of_def)
  moreover from Cons obtain ls where "signal_lines rs = Inr ls" by auto
  ultimately show ?case using r by (simp add: tag_of_monitor)
qed

lemma urgency_of_monitor_only:
  assumes "risks \<noteq> []" "\<forall>r\<in>set risks. level_of r = ''monitor''"
  shows "urgency_of risks = ''low''"
proof -
  from assms(2) have "\<not> list_ex (\<lambda>r. level_of r = ''monitor_closely'') risks"
    "\<not> list_ex (\<lambda>r. level_of r = ''consider_urgent'') risks"
    by (auto simp: list_ex_iff)
  with assms(1) show ?thesis by (simp add: urgency_of_def)
qed

lemma upper_low: "upper ''low'' = ''LOW''"
  by code_simp

text \<open>
  Claim C1 (as amended). For every note whose finding list is non-empty and holds only
  findings of level \<open>monitor\<close>, the aggregation of lines 108--113 gives the urgency
  \<open>low\<close>, and the report shows \<open>LOW\<close> on its urgency line: \<open>moderate\<close> needs a finding
  of level \<open>monitor_closely\<close>.
\<close>

theorem monitor_only_urgency_is_low:
  assumes "risk_findings note_text = Inr risks" "risks \<noteq> []"
    "\<forall>r\<in>set risks. level_of r = ''monitor''"
  shows "urgency_of risks = ''low'' \<and>
    (\<exists>rest. demo_risk_radar note_text =
       Inr (''## '' @ emoji_traffic_light @ '' Risk Radar (Demo Mode)'' @ [nl] @
            ''**Urgency level:** **LOW**'' @ [nl] @ rest))"
proof -
  have u: "urgency_of risks = ''low''" using assms(2,3) by (rule urgency_of_monitor_only)
  from signal_lines_monitor[OF assms(3)] obtain ls where ls: "signal_lines risks = Inr ls" by blast
  have "demo_risk_radar note_text =
       Inr (''## '' @ emoji_traffic_light @ '' Risk Radar (Demo Mode)'' @ [nl] @
            ''**Urgency level:** **LOW**'' @ [nl] @
            join [nl] ([[], ''### Signals detected (non-diagnostic)''] @ ls @
               [[], ''### What to do next (general)''] @ next_steps_lines ''low''))"
    using assms(1,2) u ls
    by (simp add: demo_risk_radar_def urgency_line_def upper_low)
  with u show ?thesis by blast
qed

lemmas char_class_defs = is_word_def is_digit_def is_upper_ascii_def is_lower_ascii_def
  is_space_def ord_def word_boundary_def

lemma findings_drank_less:
  "risk_findings ''drank less'' =
     Inr [(''Low hydration risk'', ''Evidence: low water intake mentioned'', ''monitor'')]"
  by (simp add: risk_findings_def bp_finding_def keyword_findings_def find_bp_def match_bp_def char_class_defs lower_def lower_char_def)

theorem monitor_only_urgency_is_low_witness:
  "risk_findings ''drank less'' =
     Inr [(''Low hydration risk'', ''Evidence: low water intake mentioned'', ''monitor'')] \<and>
   urgency_of [(''Low hydration risk'', ''Evidence: low water intake mentioned'', ''monitor'')]
     = ''low''"
  using monitor_only_urgency_is_low[OF findings_drank_less]
  by (simp add: findings_drank_less level_of_def)

text \<open>The note \<open>drank less\<close> has the single finding of level \<open>monitor\<close>, and its urgency
  is not \<open>moderate\<close>.\<close>

theorem monitor_only_not_moderate:
  "risk_findings ''drank less'' =
     Inr [(''Low hydration risk'', ''Evidence: low water intake mentioned'', ''monitor'')] \<and>
   level_of (''Low hydration risk'', ''Evidence: low water intake mentioned'', ''monitor'') = ''monitor'' \<and>
   urgency_of [(''Low hydration risk'', ''Evidence: low water intake mentioned'', ''monitor'')]
     \<noteq> ''moderate''"
  by (simp add: findings_drank_less level_of_def urgency_of_def)

subsection \<open>The generators return normally\<close>

lemma run_tool_eq:
  "run_tool cfg provider kind inp =
     (if \<not> llm_available cfg then demo_of kind inp
      else case provider (llm_request_of cfg (prompt_of kind inp)) of
             Inr content \<Rightarrow> Inr (strip content)
           | Inl err \<Rightarrow> if quota_error err then demo_of kind inp else Inl (ModelError err))"
  by (cases kind) (auto simp: call_llm_or_demo_def split: sum.splits)

lemma join_Cons_nonempty: "x \<noteq> [] \<Longrightarrow> join sep (x # xs) \<noteq> []"
  by (cases xs) simp_all

lemma tag_of_levels:
  "tag_of ''monitor'' = Inr ''Monitor''"
  "tag_of ''monitor_closely'' = Inr ''Monitor closely''"
  "tag_of ''consider_urgent'' = Inr ''Consider urgent care''"
  by (simp_all add: tag_of_def tag_table_def)

lemma risk_findings_total:
  "\<exists>risks. risk_findings t = Inr risks \<and> (\<forall>r\<in>set risks. known_level (level_of r))"
proof -
  obtain bp where "find_bp t = Inr bp" using find_bp_total by blast
  then show ?thesis
    by (auto simp: risk_findings_def bp_finding_def keyword_findings_def Let_def level_of_def
        known_level_def split: option.splits)
qed

lemma signal_lines_total:
  "\<forall>r\<in>set risks. known_level (level_of r) \<Longrightarrow>
   \<exists>ls. signal_lines risks = Inr ls \<and> length ls = length risks"
proof (induction risks)
  case Nil
  then show ?case by simp
next
  case (Cons r rs)
  obtain title ev level where r: "r = (title, ev, level)" by (cases r) auto
  with Cons.prems have "known_level level" by (simp add: level_of_def)
  then obtain tag where "tag_of level = Inr tag"
    by (auto simp: known_level_def tag_of_levels)
  moreover from Cons obtain ls where "signal_lines rs = Inr ls" "length ls = length rs" by auto
  ultimately show ?case using r by simp
qed

lemma demo_risk_radar_total: "\<exists>out. demo_risk_radar t = Inr out \<and> out \<noteq> []"
proof -
  obtain risks where r: "risk_findings t = Inr risks" "\<forall>r\<in>set risks. known_level (level_of r)"
    using risk_findings_total by blast
  obtain ls where ls: "signal_lines risks = Inr ls" using signal_lines_total[OF r(2)] by blast
  show ?thesis using r(1) ls
    by (simp add: demo_risk_radar_def Let_def join_Cons_nonempty)
qed

lemma demo_action_planner_total: "\<exists>out. demo_action_planner t = Inr out \<and> out \<noteq> []"
proof -
  obtain bp where "find_bp t = Inr bp" using find_bp_total by blast
  then show ?thesis
    by (simp add: demo_action_planner_def Let_def join_Cons_nonempty split del: if_split)
qed

lemma demo_doctor_brief_total: "\<exists>out. demo_doctor_brief t = Inr out \<and> out \<noteq> []"
proof -
  obtain bp where "find_bp t = Inr bp" using find_bp_total by blast
  then show ?thesis
    by (simp add: demo_doctor_brief_def doctor_brief_lines_def join_Cons_nonempty)
qed

lemma demo_care_circle_msg_total: "\<exists>out. demo_care_circle_msg t a b = Inr out \<and> out \<noteq> []"
proof -
  obtain bp where "find_bp t = Inr bp" using find_bp_total by blast
  then show ?thesis
    by (simp add: demo_care_circle_msg_def join_Cons_nonempty)
qed

lemma demo_caregiver_wellbeing_total: "\<exists>out. demo_caregiver_wellbeing t = Inr out \<and> out \<noteq> []"
  by (simp add: demo_caregiver_wellbeing_def join_Cons_nonempty)

lemma demo_of_total: "\<exists>out. demo_of kind inp = Inr out \<and> out \<noteq> []"
  by (cases kind)
     (simp_all add: demo_risk_radar_total demo_action_planner_total demo_doctor_brief_total
        demo_care_circle_msg_total demo_caregiver_wellbeing_total)

subsection \<open>Dispatch\<close>

text \<open>
  Claim C5. When the model path is attempted (\<open>llm_available\<close>) and the model call fails
  with error text \<open>err\<close>, the dispatch returns the output of the heuristic generator
  if the lower-cased error text contains one of the three quota/rate-limit substrings
  (\<open>quota_error\<close>), and re-raises the failure otherwise; for each of the five tabs the
  result is the output of its own generator if and only if \<open>quota_error err\<close>.
\<close>

theorem model_failure_fallback_iff_quota:
  assumes "llm_available cfg"
  shows "(provider (llm_request_of cfg prompt) = Inl err \<longrightarrow>
           call_llm_or_demo cfg provider prompt demo_fn demo_args =
             (if quota_error err then demo_fn demo_args else Inl (ModelError err))) \<and>
         (provider (llm_request_of cfg (prompt_of kind inp)) = Inl err \<longrightarrow>
           run_tool cfg provider kind inp =
             (if quota_error err then demo_of kind inp else Inl (ModelError err)) \<and>
           ((run_tool cfg provider kind inp = demo_of kind inp) = quota_error err))"
proof -
  have "provider (llm_request_of cfg prompt) = Inl err \<longrightarrow>
           call_llm_or_demo cfg provider prompt demo_fn demo_args =
             (if quota_error err then demo_fn demo_args else Inl (ModelError err))"
    using assms by (simp add: call_llm_or_demo_def)
  moreover obtain out where "demo_of kind inp = Inr out" using demo_of_total by blast
  then have "provider (llm_request_of cfg (prompt_of kind inp)) = Inl err \<longrightarrow>
           run_tool cfg provider kind inp =
             (if quota_error err then demo_of kind inp else Inl (ModelError err)) \<and>
           ((run_tool cfg provider kind inp = demo_of kind inp) = quota_error err)"
    using assms by (simp add: run_tool_eq)
  ultimately show ?thesis by blast
qed

lemma example_config_available: "llm_available example_config"
  by (simp add: llm_available_def example_config_def getenv_default_def)

lemma quota_429: "quota_error ''Error code: 429 - rate limit''"
  by (simp add: quota_error_def lower_def lower_char_def is_upper_ascii_def ord_def)

lemma not_quota_401: "\<not> quota_error ''Error code: 401 - invalid api key''"
  by (simp add: quota_error_def lower_def lower_char_def is_upper_ascii_def ord_def)

theorem model_failure_fallback_iff_quota_witness:
  "llm_available example_config \<and>
   run_tool example_config (\<lambda>_. Inl ''Error code: 429 - rate limit'') RiskRadar example_inputs
     = demo_of RiskRadar example_inputs \<and>
   run_tool example_config (\<lambda>_. Inl ''Error code: 401 - invalid api key'') RiskRadar example_inputs
     = Inl (ModelError ''Error code: 401 - invalid api key'')"
  using model_failure_fallback_iff_quota[OF example_config_available,
      where provider = "\<lambda>_. Inl ''Error code: 429 - rate limit''"
        and err = "''Error code: 429 - rate limit''" and kind = RiskRadar
        and inp = example_inputs and prompt = "[]" and demo_fn = "\<lambda>_. Inr []"
        and demo_args = "()"]
    model_failure_fallback_iff_quota[OF example_config_available,
      where provider = "\<lambda>_. Inl ''Error code: 401 - invalid api key''"
        and err = "''Error code: 401 - invalid api key''" and kind = RiskRadar
        and inp = example_inputs and prompt = "[]" and demo_fn = "\<lambda>_. Inr []"
        and demo_args = "()"]
    example_config_available quota_429 not_quota_401
  by simp

text \<open>
  Claim C6. With the run mode forced to Demo Mode, pressing the button of a tab returns the
  output of that tab's heuristic generator on the tab's own arguments, whatever the
  provider, the loaded library and the credential are. The model path is open exactly
  when Demo Mode is not forced, the provider library loaded and a non-empty credential
  set; whenever it is not open the result is the heuristic generator's output.
\<close>

theorem forced_demo_mode_uses_heuristic:
  "(startswith (mode cfg) ''Force Demo'' \<longrightarrow>
      run_tool cfg provider kind inp = demo_of kind inp \<and>
      call_llm_or_demo cfg provider prompt demo_fn demo_args = demo_fn demo_args) \<and>
   (llm_available cfg =
      (\<not> startswith (mode cfg) ''Force Demo'' \<and> openai_loaded cfg \<and>
       (\<exists>key. openai_api_key cfg = Some key \<and> key \<noteq> []))) \<and>
   (\<not> llm_available cfg \<longrightarrow>
      run_tool cfg provider kind inp = demo_of kind inp \<and>
      call_llm_or_demo cfg provider prompt demo_fn demo_args = demo_fn demo_args)"
proof -
  have a: "llm_available cfg =
      (\<not> startswith (mode cfg) ''Force Demo'' \<and> openai_loaded cfg \<and>
       (\<exists>key. openai_api_key cfg = Some key \<and> key \<noteq> []))"
    by (cases "openai_api_key cfg") (auto simp: llm_available_def getenv_default_def)
  have b: "\<not> llm_available cfg \<longrightarrow>
      run_tool cfg provider kind inp = demo_of kind inp \<and>
      call_llm_or_demo cfg provider prompt demo_fn demo_args = demo_fn demo_args"
    by (simp add: run_tool_eq call_llm_or_demo_def)
  have c: "startswith (mode cfg) ''Force Demo'' \<longrightarrow> \<not> llm_available cfg"
    by (simp add: llm_available_def)
  from a b c show ?thesis by blast
qed

lemma forced_config_forced: "startswith (mode forced_config) ''Force Demo''"
  by (simp add: forced_config_def)

theorem forced_demo_mode_uses_heuristic_witness:
  "startswith (mode forced_config) ''Force Demo'' \<and>
   openai_loaded forced_config \<and> openai_api_key forced_config = Some ''sk-test'' \<and>
   run_tool forced_config (\<lambda>_. Inr ''text of the model'') DoctorBrief example_inputs
     = demo_of DoctorBrief example_inputs"
  using forced_demo_mode_uses_heuristic[where cfg = forced_config
      and provider = "\<lambda>_. Inr ''text of the model''" and kind = DoctorBrief
      and inp = example_inputs and prompt = "[]" and demo_fn = "\<lambda>_. Inr []"
      and demo_args = "()"] forced_config_forced
  by (simp add: forced_config_def)

subsection \<open>Care Circle: the entries of the message and the slice \<open>msg[:7]\<close>\<close>

lemma join_snoc: "xs \<noteq> [] \<Longrightarrow> join sep (xs @ [y]) = join sep xs @ sep @ y"
  by (induction sep xs rule: join.induct) simp_all

text \<open>
  Claim C10. The list \<open>msg\<close> assembled before the slice has at most six entries (the
  header, at most three conditional bullets, the next-steps bullet, at most one urgent
  line), so \<open>msg[:7]\<close> is the whole list and nothing is dropped; when the lower-cased tone
  begins with \<open>urgent\<close> the urgent-contact line is the last entry of the sliced list and
  ends the message body. The report is the header followed by the join of all entries.
\<close>

theorem care_circle_cap_never_truncates:
  "length (care_circle_entries bp note_text tone) \<le> 6 \<and>
   take 7 (care_circle_entries bp note_text tone) = care_circle_entries bp note_text tone \<and>
   care_circle_body bp note_text tone = join [nl] (care_circle_entries bp note_text tone) \<and>
   (startswith (lower tone) ''urgent'' \<longrightarrow>
      last (take 7 (care_circle_entries bp note_text tone)) = urgent_contact_line \<and>
      (\<exists>pre. care_circle_body bp note_text tone = pre @ [nl] @ urgent_contact_line)) \<and>
   (\<exists>bp'. find_bp note_text = Inr bp' \<and>
      demo_care_circle_msg note_text audience tone =
        Inr (join [nl]
          [''## '' @ emoji_people @ '' Care Circle Message (Demo Mode)'',
           ''**Audience:** '' @ audience @ '' | **Tone:** '' @ tone,
           [],
           join [nl] (care_circle_entries bp' note_text tone)]))"
proof -
  let ?es = "care_circle_entries bp note_text tone"
  have len: "length ?es \<le> 6"
    by (cases bp) (auto simp: care_circle_entries_def)
  then have tk: "take 7 ?es = ?es" by simp
  have body: "care_circle_body bp note_text tone = join [nl] ?es"
    by (simp add: care_circle_body_def tk)
  have urg: "startswith (lower tone) ''urgent'' \<longrightarrow>
      last (take 7 ?es) = urgent_contact_line \<and>
      (\<exists>pre. care_circle_body bp note_text tone = pre @ [nl] @ urgent_contact_line)"
  proof
    assume u: "startswith (lower tone) ''urgent''"
    obtain xs where xs: "?es = xs @ [urgent_contact_line]" "xs \<noteq> []"
      using u by (cases bp) (auto simp: care_circle_entries_def urgent_contact_line_def)
    then have "join [nl] ?es = join [nl] xs @ [nl] @ urgent_contact_line"
      by (simp add: join_snoc)
    with xs body tk show "last (take 7 ?es) = urgent_contact_line \<and>
      (\<exists>pre. care_circle_body bp note_text tone = pre @ [nl] @ urgent_contact_line)"
      by auto
  qed
  obtain bp' where bp': "find_bp note_text = Inr bp'" using find_bp_total by blast
  have "length (care_circle_entries bp' note_text tone) \<le> 6"
    by (cases bp') (auto simp: care_circle_entries_def)
  then have "take 7 (care_circle_entries bp' note_text tone) = care_circle_entries bp' note_text tone"
    by simp
  with bp' have "demo_care_circle_msg note_text audience tone =
        Inr (join [nl]
          [''## '' @ emoji_people @ '' Care Circle Message (Demo Mode)'',
           ''**Audience:** '' @ audience @ '' | **Tone:** '' @ tone,
           [],
           join [nl] (care_circle_entries bp' note_text tone)])"
    by (simp add: demo_care_circle_msg_def care_circle_body_def)
  with bp' len tk body urg show ?thesis by blast
qed

lemma upper_tone_urgent: "startswith (lower ''Urgent (only if needed)'') ''urgent''"
  by code_simp

theorem care_circle_cap_never_truncates_witness:
  "startswith (lower ''Urgent (only if needed)'') ''urgent'' \<and>
   last (take 7 (care_circle_entries (Some (92, 58, ''92/58'')) ''felt dizzy, missed a dose, BP 92/58''
      ''Urgent (only if needed)'')) = urgent_contact_line"
  using care_circle_cap_never_truncates[where bp = "Some (92, 58, ''92/58'')"
      and note_text = "''felt dizzy, missed a dose, BP 92/58''"
      and tone = "''Urgent (only if needed)''" and audience = "[]"]
    upper_tone_urgent
  by blast

subsection \<open>Wellbeing: the strain cues\<close>

lemma ord_char_of: "ord (char_of (n::nat)) = n mod 256"
  by (simp add: ord_def)

lemma lower_char_idem: "lower_char (lower_char c) = lower_char c"
  by (auto simp: lower_char_def is_upper_ascii_def ord_char_of)

lemma lower_idem: "lower (lower t) = lower t"
  by (simp add: lower_def lower_char_idem)

lemma burnout_phrases_eq:
  "burnout_phrases t = filter (\<lambda>p. py_in p (lower t)) strain_phrases"
  by (simp add: burnout_phrases_def contains_any_def lower_idem)

lemma strain_cues_example: "strain_cues ''tired tired stressed'' = [''stress'', ''tired'']"
  by code_simp

text \<open>
  Claim C9. For every input text the strain cues the Wellbeing generator reports are the
  fixed strain phrases that occur in the lower-cased input, each once, in ascending
  lexicographic order (the sorted list of that set); for \<open>tired tired stressed\<close> the list is
  \<open>stress\<close>, \<open>tired\<close>. The line of the report is the comma-separated list when a phrase
  occurs and the "no explicit caregiver strain language" line when none does.
\<close>

theorem strain_cues_sorted_distinct:
  "strain_cues t = sorted_list_of_set {p \<in> set strain_phrases. py_in p (lower t)} \<and>
   sorted (strain_cues t) \<and> distinct (strain_cues t) \<and>
   set (strain_cues t) = {p \<in> set strain_phrases. py_in p (lower t)} \<and>
   strain_cues ''tired tired stressed'' = [''stress'', ''tired''] \<and>
   (set (strain_cues t) \<noteq> {} \<longrightarrow>
      strain_line t = ''- Possible strain cues: '' @ join '', '' (strain_cues t)) \<and>
   (set (strain_cues t) = {} \<longrightarrow>
      strain_line t = ''- No explicit caregiver strain language detected in the note.'') \<and>
   (\<exists>pre post. demo_caregiver_wellbeing t = Inr (pre @ [nl] @ strain_line t @ [nl] @ post))"
proof -
  have s: "set (strain_cues t) = {p \<in> set strain_phrases. py_in p (lower t)}"
    by (auto simp: strain_cues_def burnout_phrases_eq)
  have e: "strain_cues t = sorted_list_of_set {p \<in> set strain_phrases. py_in p (lower t)}"
  proof -
    have "{p \<in> set strain_phrases. py_in p (lower t)} = set (burnout_phrases t)"
      by (auto simp: burnout_phrases_eq)
    then show ?thesis
      by (simp add: strain_cues_def sorted_list_of_set_sort_remdups)
  qed
  have d: "sorted (strain_cues t)" "distinct (strain_cues t)"
    by (simp_all add: strain_cues_def)
  have ne: "(burnout_phrases t \<noteq> []) = (set (strain_cues t) \<noteq> {})"
    by (simp add: strain_cues_def)
  have l1: "set (strain_cues t) \<noteq> {} \<longrightarrow>
      strain_line t = ''- Possible strain cues: '' @ join '', '' (strain_cues t)"
    using ne by (simp add: strain_line_def)
  have l2: "set (strain_cues t) = {} \<longrightarrow>
      strain_line t = ''- No explicit caregiver strain language detected in the note.''"
    using ne by (simp add: strain_line_def)
  have "\<exists>pre post. demo_caregiver_wellbeing t = Inr (pre @ [nl] @ strain_line t @ [nl] @ post)"
    unfolding demo_caregiver_wellbeing_def
    apply (simp only: join.simps sum.inject)
    apply (rule exI[of _ "(''## '' @ emoji_lotus @ '' Caregiver Wellbeing (Demo Mode)'') @ [nl] @ ''### Signals (only if present)''"])
    apply (rule exI)
    apply (simp only: append_assoc)
    done
  with s e d l1 l2 strain_cues_example show ?thesis by blast
qed

lemma strain_nonempty_example: "set (strain_cues ''tired tired stressed'') \<noteq> {}"
  by (simp add: strain_cues_example)

lemma strain_empty_example: "set (strain_cues ''all fine today'') = {}"
  by code_simp

theorem strain_cues_sorted_distinct_witness:
  "strain_line ''tired tired stressed'' = ''- Possible strain cues: stress, tired'' \<and>
   strain_line ''all fine today'' = ''- No explicit caregiver strain language detected in the note.''"
  using strain_cues_sorted_distinct[of "''tired tired stressed''"]
    strain_cues_sorted_distinct[of "''all fine today''"]
    strain_nonempty_example strain_empty_example
  by (simp add: strain_cues_example)

subsection \<open>Doctor Brief: the report for the empty note\<close>

lemma find_bp_empty: "find_bp [] = Inr None"
  by (simp add: find_bp_def match_bp_def word_boundary_def)

lemma lower_Nil: "lower [] = []"
  by (simp add: lower_def)

text \<open>
  For the empty note the Doctor Brief has no pertinent positive and no fallback bullet in
  their place: the heading \<open>### Pertinent positives\<close> is followed by the empty separator
  line and the next heading.
\<close>

theorem doctor_brief_positives_left_empty:
  "pertinent_positives None [] = [] \<and>
   demo_doctor_brief [] = Inr (join [nl]
     [''## '' @ emoji_stethoscope @ '' Doctor Brief (Demo Mode)'',
      ''### Summary (4'' @ en_dash @ ''6 sentences)'',
      ''Caregiver reports increased fatigue today with reduced intake/activity. '' @
      ''BP: not provided. Dizziness: not reported. Missed medication dose: not reported. '' @
      ''Hydration appears reduced. Mood described as lower/withdrawn.'',
      [],
      ''### Pertinent positives'',
      [],
      ''### Questions for clinician'',
      ''- Could symptoms relate to hydration, medication timing, or blood pressure variability?'',
      ''- What parameters should trigger urgent evaluation (e.g., BP thresholds, worsening dizziness)?'',
      ''- Any recommended monitoring cadence for BP/symptoms over the next few days?'',
      [],
      ''### What to track before visit'',
      ''- BP readings with timestamps (if available)'',
      ''- Episodes of dizziness (timing, triggers, duration)'',
      ''- Food/fluid intake estimate'',
      ''- Meds taken/missed with approximate times''])"
  by (simp add: demo_doctor_brief_def find_bp_empty doctor_brief_lines_def doctor_summary_def
      pertinent_positives_def lower_Nil)

text \<open>
  Claim C2 (the code at the failing input). The empty note mentions neither fatigue nor
  hydration nor a withdrawn mood, yet the summary of its Doctor Brief, the third line of
  the report, says "Caregiver reports increased fatigue today with reduced
  intake/activity", "Hydration appears reduced" and "Mood described as lower/withdrawn".
\<close>

theorem doctor_brief_asserts_unmentioned_facts:
  "\<not> py_in ''fatigue'' (lower []) \<and> \<not> py_in ''hydration'' (lower []) \<and>
   \<not> py_in ''withdrawn'' (lower []) \<and> find_bp [] = Inr None \<and>
   doctor_summary None [] =
     ''Caregiver reports increased fatigue today with reduced intake/activity. '' @
     ''BP: not provided. Dizziness: not reported. Missed medication dose: not reported. '' @
     ''Hydration appears reduced. Mood described as lower/withdrawn.'' \<and>
   demo_doctor_brief [] = Inr (join [nl] (doctor_brief_lines None [])) \<and>
   doctor_brief_lines None [] ! 2 = doctor_summary None []"
  by (simp add: demo_doctor_brief_def find_bp_empty doctor_brief_lines_def doctor_summary_def
      lower_Nil)

subsection \<open>Care Circle: a reading that spans several lines\<close>

lemma find_bp_multiline: "find_bp multiline_note = Inr (Some (92, 58, multiline_raw))"
  by (simp add: multiline_note_def multiline_raw_def find_bp_def match_bp_def char_class_defs
      py_int_def decimal_value_def digit_val_def)

lemma lower_urgent_tone: "lower ''Urgent (only if needed)'' = ''urgent (only if needed)''"
  by code_simp

lemma lower_multiline_note: "lower multiline_note = multiline_note"
  by (simp add: multiline_note_def lower_def lower_char_def is_upper_ascii_def ord_def)

lemma multiline_entries:
  "care_circle_entries (Some (92, 58, multiline_raw)) multiline_note ''Urgent (only if needed)'' =
       [''Quick update:'',
        ''- Had dizziness when standing today.'',
        ''- BP reading reported: '' @ multiline_raw @ ''.'',
        ''- Missed at least one medication dose (noted).'',
        ''- Next steps: encourage fluids/food if appropriate, recheck BP later, and monitor symptoms.'',
        ''If symptoms worsen, we should contact clinician / consider urgent care.'']"
proof -
  have "py_in ''dizzy'' multiline_note" "py_in ''missed'' multiline_note"
    by (simp_all add: multiline_note_def)
  then show ?thesis
    by (simp add: care_circle_entries_def lower_multiline_note lower_urgent_tone)
qed

text \<open>
  Claim C8 (the code at the failing input). For the note \<open>multiline_note\<close> and the tone
  "Urgent (only if needed)" the matched reading spans three lines, the message has six
  entries and its body has eight lines.
\<close>

theorem care_circle_body_multiline_bp:
  "find_bp multiline_note = Inr (Some (92, 58, multiline_raw)) \<and>
   care_circle_body (Some (92, 58, multiline_raw)) multiline_note ''Urgent (only if needed)'' =
     join ''\<newline>''
       [''Quick update:'',
        ''- Had dizziness when standing today.'',
        ''- BP reading reported: 92'',
        ''/'',
        ''58.'',
        ''- Missed at least one medication dose (noted).'',
        ''- Next steps: encourage fluids/food if appropriate, recheck BP later, and monitor symptoms.'',
        ''If symptoms worsen, we should contact clinician / consider urgent care.''] \<and>
   line_count (care_circle_body (Some (92, 58, multiline_raw)) multiline_note
     ''Urgent (only if needed)'') = 8"
proof -
  have b: "care_circle_body (Some (92, 58, multiline_raw)) multiline_note
      ''Urgent (only if needed)'' =
     join [nl]
       [''Quick update:'',
        ''- Had dizziness when standing today.'',
        ''- BP reading reported: '' @ multiline_raw @ ''.'',
        ''- Missed at least one medication dose (noted).'',
        ''- Next steps: encourage fluids/food if appropriate, recheck BP later, and monitor symptoms.'',
        ''If symptoms worsen, we should contact clinician / consider urgent care.'']"
    by (simp add: care_circle_body_def multiline_entries)
  show ?thesis
    unfolding b by (simp add: find_bp_multiline multiline_raw_def line_count_def nl_def)
qed

subsection \<open>Totality, and the fallback bullets for the empty note\<close>

lemma risk_radar_empty:
  "demo_risk_radar [] = Inr (join [nl]
     [''## '' @ emoji_traffic_light @ '' Risk Radar (Demo Mode)'',
      ''**Urgency level:** **LOW**'',
      [],
      ''- No clear risk signals detected from the note.'',
      [],
      ''### What to do next (general)'',
      ''- Monitor symptoms and repeat key measurements if available (e.g., BP).'',
      ''- Encourage hydration/food if appropriate and safe for the person.''])"
  by (simp add: demo_risk_radar_def risk_findings_def bp_finding_def keyword_findings_def
      find_bp_empty lower_Nil urgency_of_def
      urgency_line_def upper_low next_steps_lines_def)

lemma action_planner_empty:
  "demo_action_planner [] = Inr (join [nl]
     [''## '' @ emoji_check_mark @ '' Action Planner (Demo Mode)'',
      ''### Do now'',
      ''- Ensure comfort and safety; address immediate needs.'',
      [],
      ''### Monitor'',
      ''- Track symptoms + timing through the day.'',
      [],
      ''### Confirm'',
      ''- Confirm meds taken/missed and any measurements taken.'',
      [],
      ''### Schedule / delegate'',
      ''- Prepare a short update to share with family/other caregivers.'',
      ''- If symptoms persist/worsen, contact clinician for guidance.''])"
  by (simp add: demo_action_planner_def find_bp_empty lower_Nil or_default_def bullets_def)

lemma wellbeing_empty:
  "demo_caregiver_wellbeing [] = Inr (join [nl]
     [''## '' @ emoji_lotus @ '' Caregiver Wellbeing (Demo Mode)'',
      ''### Signals (only if present)'',
      ''- No explicit caregiver strain language detected in the note.'',
      [],
      ''### 10-minute reset plan (practical)'',
      ''- Drink water + quick snack.'',
      ''- Send a 2-line status update to someone in the care circle.'',
      ''- Pick ONE task to do next; park the rest.'',
      [],
      ''### Delegate / share load'',
      ''- Ask someone to cover: a meal, a 30-minute visit, a pharmacy run, or a check-in call.'',
      ''- If nights are tough, rotate shifts (even 2'' @ en_dash @ ''3 hour blocks).'',
      [],
      ''### Boundary reminder'',
      ''- You don'' @ rsquo @ ''t have to do everything perfectly. You'' @ rsquo @
        ''re aiming for safety + consistency.''])"
  by (simp add: demo_caregiver_wellbeing_def strain_line_def burnout_phrases_def
      contains_any_def lower_Nil strain_phrases_def)

lemma care_circle_empty:
  "demo_care_circle_msg [] audience tone = Inr (join [nl]
     [''## '' @ emoji_people @ '' Care Circle Message (Demo Mode)'',
      ''**Audience:** '' @ audience @ '' | **Tone:** '' @ tone,
      [],
      join [nl]
        ([''Quick update:'',
          ''- Next steps: encourage fluids/food if appropriate, recheck BP later, and monitor symptoms.''] @
         (if startswith (lower tone) ''urgent''
          then [''If symptoms worsen, we should contact clinician / consider urgent care.'']
          else []))])"
  by (simp add: demo_care_circle_msg_def find_bp_empty care_circle_body_def
      care_circle_entries_def lower_Nil)

lemma doctor_summary_empty:
  "doctor_summary None [] =
     ''Caregiver reports increased fatigue today with reduced intake/activity. '' @
     ''BP: not provided. Dizziness: not reported. Missed medication dose: not reported. '' @
     ''Hydration appears reduced. Mood described as lower/withdrawn.''"
  by (simp add: doctor_summary_def lower_Nil)

lemma find_temp_empty: "find_temp [] = None"
  by (simp add: find_temp_def lower_Nil match_temp_def word_boundary_def)

lemma contains_any_empty: "contains_any [] strain_phrases = []"
  by (simp add: contains_any_def lower_Nil strain_phrases_def)

text \<open>
  Claim C7 (as amended). \<open>_find_bp\<close> and the five generators return normally on every
  input, and every generator returns a non-empty text (\<open>_find_temp\<close> and \<open>_contains_any\<close>
  contain no operation that can raise and are total functions of the model). For the empty
  note: the extractors find nothing; the Risk Radar shows its "No clear risk signals"
  bullet; the Action Planner fills Do now, Monitor and Confirm with their generic bullets;
  the Doctor Brief summary says "not provided" and "not reported"; the Care Circle message
  holds its constant entries; the Wellbeing report shows its "No explicit caregiver strain
  language" bullet.
\<close>

theorem generators_total:
  "(\<exists>bp. find_bp t = Inr bp) \<and>
   (\<exists>out. demo_risk_radar t = Inr out \<and> out \<noteq> []) \<and>
   (\<exists>out. demo_action_planner t = Inr out \<and> out \<noteq> []) \<and>
   (\<exists>out. demo_doctor_brief t = Inr out \<and> out \<noteq> []) \<and>
   (\<exists>out. demo_care_circle_msg t audience tone = Inr out \<and> out \<noteq> []) \<and>
   (\<exists>out. demo_caregiver_wellbeing t = Inr out \<and> out \<noteq> []) \<and>
   find_bp [] = Inr None \<and> find_temp [] = None \<and> contains_any [] strain_phrases = [] \<and>
   demo_risk_radar [] = Inr (join [nl]
     [''## '' @ emoji_traffic_light @ '' Risk Radar (Demo Mode)'',
      ''**Urgency level:** **LOW**'',
      [],
      ''- No clear risk signals detected from the note.'',
      [],
      ''### What to do next (general)'',
      ''- Monitor symptoms and repeat key measurements if available (e.g., BP).'',
      ''- Encourage hydration/food if appropriate and safe for the person.'']) \<and>
   demo_action_planner [] = Inr (join [nl]
     [''## '' @ emoji_check_mark @ '' Action Planner (Demo Mode)'',
      ''### Do now'',
      ''- Ensure comfort and safety; address immediate needs.'',
      [],
      ''### Monitor'',
      ''- Track symptoms + timing through the day.'',
      [],
      ''### Confirm'',
      ''- Confirm meds taken/missed and any measurements taken.'',
      [],
      ''### Schedule / delegate'',
      ''- Prepare a short update to share with family/other caregivers.'',
      ''- If symptoms persist/worsen, contact clinician for guidance.'']) \<and>
   doctor_summary None [] =
     ''Caregiver reports increased fatigue today with reduced intake/activity. '' @
     ''BP: not provided. Dizziness: not reported. Missed medication dose: not reported. '' @
     ''Hydration appears reduced. Mood described as lower/withdrawn.'' \<and>
   demo_care_circle_msg [] audience tone = Inr (join [nl]
     [''## '' @ emoji_people @ '' Care Circle Message (Demo Mode)'',
      ''**Audience:** '' @ audience @ '' | **Tone:** '' @ tone,
      [],
      join [nl]
        ([''Quick update:'',
          ''- Next steps: encourage fluids/food if appropriate, recheck BP later, and monitor symptoms.''] @
         (if startswith (lower tone) ''urgent''
          then [''If symptoms worsen, we should contact clinician / consider urgent care.'']
          else []))]) \<and>
   demo_caregiver_wellbeing [] = Inr (join [nl]
     [''## '' @ emoji_lotus @ '' Caregiver Wellbeing (Demo Mode)'',
      ''### Signals (only if present)'',
      ''- No explicit caregiver strain language detected in the note.'',
      [],
      ''### 10-minute reset plan (practical)'',
      ''- Drink water + quick snack.'',
      ''- Send a 2-line status update to someone in the care circle.'',
      ''- Pick ONE task to do next; park the rest.'',
      [],
      ''### Delegate / share load'',
      ''- Ask someone to cover: a meal, a 30-minute visit, a pharmacy run, or a check-in call.'',
      ''- If nights are tough, rotate shifts (even 2'' @ en_dash @ ''3 hour blocks).'',
      [],
      ''### Boundary reminder'',
      ''- You don'' @ rsquo @ ''t have to do everything perfectly. You'' @ rsquo @
        ''re aiming for safety + consistency.''])"
  apply (intro conjI)
                apply (rule find_bp_total)
               apply (rule demo_risk_radar_total)
              apply (rule demo_action_planner_total)
             apply (rule demo_doctor_brief_total)
            apply (rule demo_care_circle_msg_total)
           apply (rule demo_caregiver_wellbeing_total)
          apply (rule find_bp_empty)
         apply (rule find_temp_empty)
        apply (rule contains_any_empty)
       apply (rule risk_radar_empty)
      apply (rule action_planner_empty)
     apply (rule doctor_summary_empty)
    apply (rule care_circle_empty)
   apply (rule wellbeing_empty)
  done

theorem generators_total_witness:
  "(\<exists>out. demo_risk_radar ''dizzy'' = Inr out \<and> out \<noteq> []) \<and>
   (\<exists>out. demo_care_circle_msg ''dizzy'' ''Family group chat'' ''Neutral + factual'' = Inr out \<and>
      out \<noteq> [])"
  using generators_total[of "''dizzy''" "''Family group chat''" "''Neutral + factual''"]
  by blast

subsection \<open>Risk Radar: the signals and their evidence\<close>

lemma startswith_append: "startswith (p @ b) p"
  by (induction p) simp_all

lemma py_in_here: "py_in p (p @ b)"
proof (cases "p @ b")
  case Nil
  then show ?thesis by simp
next
  case (Cons c cs)
  have "startswith (p @ b) p" by (rule startswith_append)
  with Cons show ?thesis by simp
qed

lemma py_in_append: "py_in p (a @ p @ b)"
proof (induction a)
  case Nil
  show ?case using py_in_here by simp
next
  case (Cons c cs)
  then show ?case by simp
qed

lemma find_bp_Some:
  assumes "find_bp text = Inr (Some (sys, dia, raw))"
  shows "\<exists>a m post. text = a @ bp_raw m @ post \<and> bp_pattern_at (prev_of None a) m post \<and>
           raw = bp_raw m \<and> search_bp None text = Some m"
proof -
  from assms obtain m where m: "search_bp None text = Some m" "raw = bp_raw m"
    by (auto simp: find_bp_def split: option.splits sum.splits)
  from search_bp_sound[OF m(1)] obtain a b where ab: "text = a @ b"
    "match_bp (prev_of None a) b = Some m" by blast
  from match_bp_sound[OF ab(2)] obtain post where "b = bp_raw m @ post"
    "bp_pattern_at (prev_of None a) m post" by blast
  with ab m show ?thesis by blast
qed

lemma find_bp_raw_in_note:
  assumes "find_bp text = Inr (Some (sys, dia, raw))"
  shows "py_in raw text"
proof -
  from find_bp_Some[OF assms] obtain a m post where "text = a @ bp_raw m @ post" "raw = bp_raw m"
    by blast
  then show ?thesis using py_in_append by simp
qed

lemma signal_lines_all2:
  "signal_lines risks = Inr ls \<Longrightarrow>
   list_all2 (\<lambda>r l. \<exists>title ev level tag. r = (title, ev, level) \<and> tag_of level = Inr tag \<and>
       l = signal_line title tag ev) risks ls"
proof (induction risks arbitrary: ls)
  case Nil
  then show ?case by simp
next
  case (Cons r rs)
  obtain title ev level where r: "r = (title, ev, level)" by (cases r) auto
  from Cons.prems r obtain tag ls' where t: "tag_of level = Inr tag" "signal_lines rs = Inr ls'"
    "ls = signal_line title tag ev # ls'"
    by (auto split: sum.splits)
  from Cons.IH[OF t(2)] r t show ?case by simp
qed

lemma keyword_titles:
  "(title, ev, level) \<in> set (keyword_findings t) \<Longrightarrow> title \<noteq> ''Low blood pressure reading''"
  by (auto simp: keyword_findings_def split: if_splits)

text \<open>
  Claim C4 (as amended). For every note the findings are computed without error and each
  is rendered as one signal of the report from its three parts: the title, the evidence
  text and the label that the table of line 122 gives for its level. The evidence of the
  "Low blood pressure reading" signal quotes the matched reading, and that reading occurs
  verbatim in the note.
\<close>

theorem risk_signals_are_triples:
  "\<exists>risks ls. risk_findings note_text = Inr risks \<and> signal_lines risks = Inr ls \<and>
     list_all2 (\<lambda>r l. \<exists>title ev level tag. r = (title, ev, level) \<and> tag_of level = Inr tag \<and>
         l = signal_line title tag ev) risks ls \<and>
     (\<forall>title ev level. (title, ev, level) \<in> set risks \<and> title = ''Low blood pressure reading'' \<longrightarrow>
        (\<exists>sys dia raw. find_bp note_text = Inr (Some (sys, dia, raw)) \<and>
           ev = ''Evidence: '' @ [apostrophe] @ raw @ [apostrophe] \<and> py_in raw note_text)) \<and>
     demo_risk_radar note_text = Inr (join [nl]
       ([''## '' @ emoji_traffic_light @ '' Risk Radar (Demo Mode)'',
         urgency_line (urgency_of risks), []] @
        (if risks \<noteq> [] then ''### Signals detected (non-diagnostic)'' # ls
         else [''- No clear risk signals detected from the note.'']) @
        [[], ''### What to do next (general)''] @ next_steps_lines (urgency_of risks)))"
proof -
  obtain risks where r: "risk_findings note_text = Inr risks"
    "\<forall>r\<in>set risks. known_level (level_of r)"
    using risk_findings_total by blast
  obtain ls where ls: "signal_lines risks = Inr ls" using signal_lines_total[OF r(2)] by blast
  obtain bp where bp: "find_bp note_text = Inr bp" using find_bp_total by blast
  have ev: "\<forall>title ev level. (title, ev, level) \<in> set risks \<and> title = ''Low blood pressure reading'' \<longrightarrow>
        (\<exists>sys dia raw. find_bp note_text = Inr (Some (sys, dia, raw)) \<and>
           ev = ''Evidence: '' @ [apostrophe] @ raw @ [apostrophe] \<and> py_in raw note_text)"
  proof (intro allI impI)
    fix title ev level
    assume h: "(title, ev, level) \<in> set risks \<and> title = ''Low blood pressure reading''"
    from r(1) bp have "risks = bp_finding bp @ keyword_findings (lower note_text)"
      by (simp add: risk_findings_def)
    with h keyword_titles have "(title, ev, level) \<in> set (bp_finding bp)" by auto
    then obtain sys dia raw where x: "bp = Some (sys, dia, raw)"
      "ev = ''Evidence: '' @ [apostrophe] @ raw @ [apostrophe]"
      by (auto simp: bp_finding_def split: option.splits if_splits)
    with bp have "py_in raw note_text" using find_bp_raw_in_note by blast
    with x bp show "\<exists>sys dia raw. find_bp note_text = Inr (Some (sys, dia, raw)) \<and>
           ev = ''Evidence: '' @ [apostrophe] @ raw @ [apostrophe] \<and> py_in raw note_text"
      by blast
  qed
  have out: "demo_risk_radar note_text = Inr (join [nl]
       ([''## '' @ emoji_traffic_light @ '' Risk Radar (Demo Mode)'',
         urgency_line (urgency_of risks), []] @
        (if risks \<noteq> [] then ''### Signals detected (non-diagnostic)'' # ls
         else [''- No clear risk signals detected from the note.'']) @
        [[], ''### What to do next (general)''] @ next_steps_lines (urgency_of risks)))"
    using r(1) ls by (simp add: demo_risk_radar_def Let_def)
  from r(1) ls signal_lines_all2[OF ls] ev out show ?thesis by blast
qed

lemma findings_low_bp:
  "risk_findings ''BP 85/55'' =
     Inr [(''Low blood pressure reading'', ''Evidence: '' @ [apostrophe] @ ''85/55'' @ [apostrophe],
           ''monitor_closely'')]"
  by (simp add: risk_findings_def bp_finding_def keyword_findings_def find_bp_def match_bp_def
      char_class_defs lower_def lower_char_def py_int_def decimal_value_def digit_val_def)

theorem risk_signals_are_triples_witness:
  "risk_findings ''BP 85/55'' =
     Inr [(''Low blood pressure reading'', ''Evidence: '' @ [apostrophe] @ ''85/55'' @ [apostrophe],
           ''monitor_closely'')] \<and>
   py_in ''85/55'' ''BP 85/55''"
proof -
  from risk_signals_are_triples[of "''BP 85/55''"] obtain risks where
    r: "risk_findings ''BP 85/55'' = Inr risks"
    and e: "\<forall>title ev level. (title, ev, level) \<in> set risks \<and> title = ''Low blood pressure reading'' \<longrightarrow>
        (\<exists>sys dia raw. find_bp ''BP 85/55'' = Inr (Some (sys, dia, raw)) \<and>
           ev = ''Evidence: '' @ [apostrophe] @ raw @ [apostrophe] \<and> py_in raw ''BP 85/55'')"
    by blast
  from r findings_low_bp have "(''Low blood pressure reading'',
      ''Evidence: '' @ [apostrophe] @ ''85/55'' @ [apostrophe], ''monitor_closely'') \<in> set risks"
    by auto
  with e obtain raw where "''Evidence: '' @ [apostrophe] @ ''85/55'' @ [apostrophe] =
      ''Evidence: '' @ [apostrophe] @ raw @ [apostrophe]" "py_in raw ''BP 85/55''"
    by blast
  then have "py_in ''85/55'' ''BP 85/55''" by simp
  with findings_low_bp show ?thesis by simp
qed

text \<open>
  The note \<open>lightheaded\<close> yields the dizziness finding, whose evidence text is the fixed
  phrase of line 94: neither the evidence nor the text it quotes occurs in the note.
\<close>

theorem dizziness_evidence_not_from_note:
  "risk_findings ''lightheaded'' =
     Inr [(''Dizziness on standing'',
           ''Evidence: '' @ [apostrophe] @ ''dizzy / standing'' @ [apostrophe] @ '' mentioned'',
           ''monitor_closely'')] \<and>
   \<not> py_in (''Evidence: '' @ [apostrophe] @ ''dizzy / standing'' @ [apostrophe] @ '' mentioned'')
        ''lightheaded'' \<and>
   \<not> py_in ''dizzy / standing'' ''lightheaded''"
  by (simp add: risk_findings_def bp_finding_def keyword_findings_def find_bp_def match_bp_def
      char_class_defs lower_def lower_char_def apostrophe_def)

subsection \<open>Blood-pressure extraction returns the leftmost match\<close>
















end
